theory Spec2Isabelle
  imports Main
begin

section \<open>JavaScript values\<close>

text \<open>
  Request bodies and token payloads are parsed JSON. A JavaScript property read that finds
  nothing yields \<open>undefined\<close>, modelled as \<open>None\<close>; \<open>JNull\<close> is JSON's \<open>null\<close>.
\<close>

datatype json =
    JNull
  | JBool bool
  | JNum int
  | JStr string
  | JArr "json list"
  | JObj "(string \<times> json) list"

text \<open>\<open>o.k\<close> on a parsed JSON value that is not \<open>null\<close>.\<close>

fun getProp :: "json \<Rightarrow> string \<Rightarrow> json option" where
  "getProp (JObj kvs) k = map_of kvs k"
| "getProp _ k = None"

text \<open>Errors that the libraries and the JavaScript runtime throw.\<close>

datatype thrown =
    TypeError
  | PrismaValidationError
  | UniqueConstraintFailed
  | RecordNotFound
  | IllegalArguments
  | JwtError

text \<open>
  \<open>const { a, b } = v\<close>: destructuring \<open>null\<close> or \<open>undefined\<close> throws a TypeError,
  any other value gives its properties.
\<close>

fun destructure :: "json \<Rightarrow> thrown + (string \<Rightarrow> json option)" where
  "destructure JNull = Inl TypeError"
| "destructure v = Inr (getProp v)"

text \<open>\<open>!v\<close> for a JSON value or \<open>undefined\<close>.\<close>

fun falsy :: "json option \<Rightarrow> bool" where
  "falsy None = True"
| "falsy (Some JNull) = True"
| "falsy (Some (JBool b)) = (\<not> b)"
| "falsy (Some (JNum n)) = (n = 0)"
| "falsy (Some (JStr s)) = (s = [])"
| "falsy (Some (JArr xs)) = False"
| "falsy (Some (JObj kvs)) = False"

text \<open>\<open>s.startsWith(p)\<close>\<close>

definition startsWith :: "string \<Rightarrow> string \<Rightarrow> bool" where
  "startsWith s p = (take (length p) s = p)"

text \<open>\<open>s.split(c)\<close> for a one-character separator: \<open>''''.split(' ')\<close> is \<open>['''']\<close>.\<close>

fun split :: "char \<Rightarrow> string \<Rightarrow> string list" where
  "split c [] = [[]]"
| "split c (x # xs) =
     (if x = c then [] # split c xs
      else (case split c xs of
              [] \<Rightarrow> [[x]]
            | w # ws \<Rightarrow> (x # w) # ws))"

text \<open>\<open>xs[i]\<close> on an array: \<open>undefined\<close> out of range.\<close>

definition at :: "'a list \<Rightarrow> nat \<Rightarrow> 'a option" where
  "at xs i = (if i < length xs then Some (xs ! i) else None)"

text \<open>\<open>xs.join(sep)\<close>\<close>

fun join :: "string \<Rightarrow> string list \<Rightarrow> string" where
  "join sep [] = []"
| "join sep [x] = x"
| "join sep (x # y # ys) = x @ sep @ join sep (y # ys)"


section \<open>Records of the store\<close>

text \<open>
  The Prisma schema is not part of the sources. The columns follow the specification's
  data model: a User has an opaque id, a unique email, a hashed password and an optional
  name; a Job has an id, title, company, status, optional description, notes and deadline,
  and the owning user's id. A nullable column holds \<open>None\<close> for SQL NULL.
\<close>

record User =
  idUser :: string
  email :: string
  password :: string
  name :: "string option"

record Job =
  idJob :: string
  title :: string
  company :: string
  status :: string
  description :: "string option"
  "notes" :: "string option"
  deadline :: "string option"
  userId :: "string option"

record db =
  users :: "User list"
  jobs :: "Job list"

text \<open>
  What the missing schema leaves open and the handlers depend on: whether the column
  \<open>Job.userId\<close> is required (\<open>String\<close>) or nullable (\<open>String?\<close>). It is a parameter.
\<close>

record schema =
  userIdRequired :: bool


section \<open>Requests and responses\<close>

text \<open>
  A validation issue of the schema library: its code, the path of the offending value and
  its message. \<open>Custom m\<close> is a message given in the schema declaration,
  \<open>LibraryDefault\<close> the library's own text for the issue.
\<close>

datatype issue_code = invalid_type | too_small | invalid_enum_value

datatype issue_message = Custom string | LibraryDefault

record issue =
  code :: issue_code
  path :: "string list"
  message :: issue_message

record error_entry =
  entry_path :: string
  entry_message :: issue_message

text \<open>
  The JSON bodies the handlers send. A record sent with \<open>res.json(record)\<close> is the whole
  object the store returned, so the body carries the record itself.
\<close>

datatype payload =
    ErrorMsg string
  | ErrorDetails string thrown
  | ValidationErrors "error_entry list"
  | Message string
  | TokenObj string
  | JobObj Job
  | JobArr "Job list"
  | UserObj User
  | UserArr "User list"
  | Uncaught thrown

record response =
  status_code :: nat
  json_body :: payload

record request =
  authorization :: "string option"
  params_id :: string
  query :: json
  body :: json
  user :: "json option"

text \<open>A middleware either answers the request itself or calls \<open>next()\<close> on the request.\<close>

datatype outcome = Respond response | Next request

text \<open>
  A route is a list of middlewares followed by a handler; the first middleware that
  responds ends the chain, and only the handler touches the store.
\<close>

fun run :: "(request \<Rightarrow> outcome) list \<Rightarrow> (db \<Rightarrow> request \<Rightarrow> db \<times> response)
              \<Rightarrow> db \<Rightarrow> request \<Rightarrow> db \<times> response" where
  "run [] h d req = h d req"
| "run (m # ms) h d req =
     (case m req of
        Respond r \<Rightarrow> (d, r)
      | Next req' \<Rightarrow> run ms h d req')"


section \<open>Schema validation\<close>

text \<open>
  A field schema maps the path of a value and the value (\<open>None\<close> when the key is absent)
  to the issues it raises.
\<close>

type_synonym field_schema = "string list \<Rightarrow> json option \<Rightarrow> issue list"

text \<open>\<open>z.string().min(1, msg)\<close>\<close>

definition z_string_min :: "nat \<Rightarrow> string \<Rightarrow> field_schema" where
  "z_string_min n msg p v =
     (case v of
        Some (JStr s) \<Rightarrow>
          (if length s < n then [\<lparr>code = too_small, path = p, message = Custom msg\<rparr>] else [])
      | _ \<Rightarrow> [\<lparr>code = invalid_type, path = p, message = LibraryDefault\<rparr>])"

text \<open>\<open>z.enum(values)\<close>\<close>

definition z_enum :: "string list \<Rightarrow> field_schema" where
  "z_enum values p v =
     (case v of
        Some (JStr s) \<Rightarrow>
          (if s \<in> set values then []
           else [\<lparr>code = invalid_enum_value, path = p, message = LibraryDefault\<rparr>])
      | _ \<Rightarrow> [\<lparr>code = invalid_type, path = p, message = LibraryDefault\<rparr>])"

text \<open>\<open>z.string().optional()\<close>\<close>

definition z_string_optional :: field_schema where
  "z_string_optional p v =
     (case v of
        None \<Rightarrow> []
      | Some (JStr s) \<Rightarrow> []
      | _ \<Rightarrow> [\<lparr>code = invalid_type, path = p, message = LibraryDefault\<rparr>])"

text \<open>
  \<open>z.object(shape).safeParse(input)\<close>: a value that is not an object is one issue at the
  empty path; an object is checked key by key in the order of the shape, and the parsed
  data keeps the keys of the shape that are present (unknown keys are stripped).
\<close>

definition z_object :: "(string \<times> field_schema) list \<Rightarrow> json \<Rightarrow> issue list + json" where
  "z_object shape input =
     (case input of
        JObj kvs \<Rightarrow>
          (let issues = concat (map (\<lambda>(k, f). f [k] (map_of kvs k)) shape)
           in if issues = [] then
                Inr (JObj (concat (map (\<lambda>(k, f). case map_of kvs k of
                                                     None \<Rightarrow> []
                                                   | Some v \<Rightarrow> [(k, v)]) shape)))
              else Inl issues)
      | _ \<Rightarrow> Inl [\<lparr>code = invalid_type, path = [], message = LibraryDefault\<rparr>])"

definition jobSchema :: "json \<Rightarrow> issue list + json" where
  "jobSchema = z_object
     [(''title'', z_string_min 1 ''Title is required''),
      (''company'', z_string_min 1 ''Company is required''),
      (''status'', z_enum [''WISHLIST'', ''APPLIED'', ''INTERVIEW'', ''OFFER'', ''REJECTEDz'']),
      (''description'', z_string_optional),
      (''notes'', z_string_optional),
      (''deadline'', z_string_optional)]"

definition validateZod :: "(json \<Rightarrow> issue list + json) \<Rightarrow> request \<Rightarrow> outcome" where
  "validateZod schema req =
     (case schema (body req) of
        Inl issues \<Rightarrow>
          Respond \<lparr>status_code = 400,
                   json_body = ValidationErrors
                     (map (\<lambda>i. \<lparr>entry_path = join ''.'' (path i), entry_message = message i\<rparr>)
                          issues)\<rparr>
      | Inr data \<Rightarrow> Next (req\<lparr>body := data\<rparr>))"

definition userQuerySchema :: "json \<Rightarrow> issue list + json" where
  "userQuerySchema = z_object [(''page'', z_string_optional), (''limit'', z_string_optional)]"

definition validateZodQuery :: "(json \<Rightarrow> issue list + json) \<Rightarrow> request \<Rightarrow> outcome" where
  "validateZodQuery schema req =
     (case schema (query req) of
        Inl issues \<Rightarrow>
          Respond \<lparr>status_code = 400,
                   json_body = ValidationErrors
                     (map (\<lambda>i. \<lparr>entry_path = join ''.'' (path i), entry_message = message i\<rparr>)
                          issues)\<rparr>
      | Inr data \<Rightarrow> Next (req\<lparr>query := data\<rparr>))"


section \<open>Authentication\<close>

text \<open>
  The token and password libraries are parameters. \<open>jwt_sign p\<close> stands for
  \<open>jwt.sign(p, process.env.JWT_SECRET, {expiresIn: '1h'})\<close> and \<open>jwt_verify t\<close> for
  \<open>jwt.verify(t, process.env.JWT_SECRET)\<close> at the time of the request; \<open>None\<close> is a
  thrown error. \<open>bcrypt_hash p rounds salt\<close> is \<open>bcrypt.hash(p, rounds)\<close> with the salt
  the library drew.
\<close>

record libs =
  jwt_sign :: "json \<Rightarrow> string option"
  jwt_verify :: "string \<Rightarrow> json option"
  bcrypt_hash :: "string \<Rightarrow> nat \<Rightarrow> string \<Rightarrow> string"
  bcrypt_compare :: "string \<Rightarrow> string \<Rightarrow> bool"

text \<open>
  \<open>authMiddleware\<close>: an absent or empty header and a header without the prefix are
  refused before the token is read; the token is the second piece of the header split at
  spaces, and \<open>jwt.verify\<close> throws on a missing or invalid one.
\<close>

definition unauthorized :: response where
  "unauthorized = \<lparr>status_code = 401, json_body = ErrorMsg ''Unauthorized''\<rparr>"

definition authMiddleware :: "libs \<Rightarrow> request \<Rightarrow> outcome" where
  "authMiddleware lib req =
     (case authorization req of
        None \<Rightarrow> Respond unauthorized
      | Some authHeader \<Rightarrow>
          (if authHeader = [] then Respond unauthorized
           else if startsWith authHeader ''Bearer '' then
                (case at (split CHR '' '' authHeader) 1 of
                   None \<Rightarrow> Respond unauthorized
                 | Some token \<Rightarrow>
                     (case jwt_verify lib token of
                        None \<Rightarrow> Respond unauthorized
                      | Some decoded \<Rightarrow> Next (req\<lparr>user := Some decoded\<rparr>)))
           else Respond unauthorized))"


section \<open>The store\<close>

text \<open>
  The tables are lists of rows in insertion order; referential checks between the tables
  are declared in the schema and are not modelled.

  The persistence client's reading of an argument for a string column. A property that
  is \<open>undefined\<close> counts as not given: in \<open>where\<close> it puts no condition on the
  column, in the \<open>data\<close> of an update it leaves the column as it is, and in the
  \<open>data\<close> of a create it leaves the column to its default. A value of a wrong type, or
  a missing value for a required column, is rejected with a validation error.
\<close>

datatype arg = Undefined | Null | Str string | Other

fun arg_of :: "json option \<Rightarrow> arg" where
  "arg_of None = Undefined"
| "arg_of (Some JNull) = Null"
| "arg_of (Some (JStr s)) = Str s"
| "arg_of (Some v) = Other"

definition andThen :: "thrown + 'a \<Rightarrow> ('a \<Rightarrow> thrown + 'b) \<Rightarrow> thrown + 'b" where
  "andThen r f = (case r of Inl e \<Rightarrow> Inl e | Inr x \<Rightarrow> f x)"

definition create_required :: "json option \<Rightarrow> thrown + string" where
  "create_required v =
     (case arg_of v of Str s \<Rightarrow> Inr s | _ \<Rightarrow> Inl PrismaValidationError)"

definition create_optional :: "json option \<Rightarrow> thrown + string option" where
  "create_optional v =
     (case arg_of v of
        Undefined \<Rightarrow> Inr None
      | Null \<Rightarrow> Inr None
      | Str s \<Rightarrow> Inr (Some s)
      | Other \<Rightarrow> Inl PrismaValidationError)"

definition update_required :: "json option \<Rightarrow> thrown + (string \<Rightarrow> string)" where
  "update_required v =
     (case arg_of v of
        Undefined \<Rightarrow> Inr (\<lambda>old. old)
      | Str s \<Rightarrow> Inr (\<lambda>old. s)
      | _ \<Rightarrow> Inl PrismaValidationError)"

definition update_optional :: "json option \<Rightarrow> thrown + (string option \<Rightarrow> string option)" where
  "update_optional v =
     (case arg_of v of
        Undefined \<Rightarrow> Inr (\<lambda>old. old)
      | Null \<Rightarrow> Inr (\<lambda>old. None)
      | Str s \<Rightarrow> Inr (\<lambda>old. Some s)
      | Other \<Rightarrow> Inl PrismaValidationError)"

text \<open>The condition \<open>where: { userId }\<close> puts on the column \<open>Job.userId\<close>.\<close>

definition where_userId :: "schema \<Rightarrow> json option \<Rightarrow> thrown + (string option \<Rightarrow> bool)" where
  "where_userId sch v =
     (case arg_of v of
        Undefined \<Rightarrow> Inr (\<lambda>c. True)
      | Null \<Rightarrow> (if userIdRequired sch then Inl PrismaValidationError else Inr (\<lambda>c. c = None))
      | Str s \<Rightarrow> Inr (\<lambda>c. c = Some s)
      | Other \<Rightarrow> Inl PrismaValidationError)"

text \<open>
  \<open>prisma.job.create({ data: { title, description, company, status, userId } })\<close>; the id
  of the new row is drawn by the store and passed as \<open>newId\<close>. The columns \<open>notes\<close>
  and \<open>deadline\<close> are not in \<open>data\<close> and stay NULL.
\<close>

definition job_create :: "schema \<Rightarrow> string \<Rightarrow> db \<Rightarrow> json option \<Rightarrow> json option \<Rightarrow> json option
                            \<Rightarrow> json option \<Rightarrow> json option \<Rightarrow> thrown + (db \<times> Job)" where
  "job_create sch newId d t desc c st uid =
     andThen (create_required t) (\<lambda>t'.
     andThen (create_optional desc) (\<lambda>desc'.
     andThen (create_required c) (\<lambda>c'.
     andThen (create_required st) (\<lambda>st'.
     andThen (if userIdRequired sch then andThen (create_required uid) (\<lambda>u. Inr (Some u))
              else create_optional uid) (\<lambda>uid'.
       if newId \<in> set (map idJob (jobs d)) then Inl UniqueConstraintFailed
       else (let j = \<lparr>idJob = newId, title = t', company = c', status = st',
                        description = desc', notes = None, deadline = None, userId = uid'\<rparr>
             in Inr (d\<lparr>jobs := jobs d @ [j]\<rparr>, j)))))))"

text \<open>\<open>prisma.job.findMany({ where: { userId } })\<close>\<close>

definition job_findMany :: "schema \<Rightarrow> db \<Rightarrow> json option \<Rightarrow> thrown + Job list" where
  "job_findMany sch d uid =
     andThen (where_userId sch uid) (\<lambda>m. Inr (filter (\<lambda>j. m (userId j)) (jobs d)))"

text \<open>\<open>prisma.job.findFirst({ where: { id, userId } })\<close>; \<open>None\<close> is the result \<open>null\<close>.\<close>

definition job_findFirst :: "schema \<Rightarrow> db \<Rightarrow> string \<Rightarrow> json option \<Rightarrow> thrown + Job option" where
  "job_findFirst sch d i uid =
     andThen (where_userId sch uid) (\<lambda>m. Inr (find (\<lambda>j. idJob j = i \<and> m (userId j)) (jobs d)))"

text \<open>\<open>prisma.job.update({ where: { id }, data: { title, description, company, status } })\<close>\<close>

definition job_update :: "db \<Rightarrow> string \<Rightarrow> json option \<Rightarrow> json option \<Rightarrow> json option
                            \<Rightarrow> json option \<Rightarrow> thrown + (db \<times> Job)" where
  "job_update d i t desc c st =
     (case find (\<lambda>j. idJob j = i) (jobs d) of
        None \<Rightarrow> Inl RecordNotFound
      | Some j \<Rightarrow>
          andThen (update_required t) (\<lambda>t'.
          andThen (update_optional desc) (\<lambda>desc'.
          andThen (update_required c) (\<lambda>c'.
          andThen (update_required st) (\<lambda>st'.
            (let upd = (\<lambda>x. x\<lparr>title := t' (title x), description := desc' (description x),
                                 company := c' (company x), status := st' (status x)\<rparr>)
             in Inr (d\<lparr>jobs := map (\<lambda>x. if idJob x = i then upd x else x) (jobs d)\<rparr>,
                     upd j)))))))"

text \<open>\<open>prisma.job.delete({ where: { id } })\<close>\<close>

definition job_delete :: "db \<Rightarrow> string \<Rightarrow> thrown + db" where
  "job_delete d i =
     (case find (\<lambda>j. idJob j = i) (jobs d) of
        None \<Rightarrow> Inl RecordNotFound
      | Some j \<Rightarrow> Inr (d\<lparr>jobs := filter (\<lambda>x. idJob x \<noteq> i) (jobs d)\<rparr>))"

text \<open>\<open>prisma.user.create({ data: { email, password: hashedPassword, name } })\<close>\<close>

definition user_create :: "string \<Rightarrow> db \<Rightarrow> json option \<Rightarrow> string \<Rightarrow> json option
                             \<Rightarrow> thrown + (db \<times> User)" where
  "user_create newId d e hashed n =
     andThen (create_required e) (\<lambda>e'.
     andThen (create_optional n) (\<lambda>n'.
       if e' \<in> set (map email (users d)) \<or> newId \<in> set (map idUser (users d))
       then Inl UniqueConstraintFailed
       else (let u = \<lparr>idUser = newId, email = e', password = hashed, name = n'\<rparr>
             in Inr (d\<lparr>users := users d @ [u]\<rparr>, u))))"

text \<open>\<open>prisma.user.findUnique({ where: { email } })\<close>\<close>

definition user_findUnique :: "db \<Rightarrow> json option \<Rightarrow> thrown + User option" where
  "user_findUnique d e =
     (case arg_of e of
        Str s \<Rightarrow> Inr (find (\<lambda>u. email u = s) (users d))
      | _ \<Rightarrow> Inl PrismaValidationError)"


section \<open>Handlers\<close>

text \<open>
  \<open>(req as any).user.id\<close>: the property \<open>id\<close> of the decoded token payload that
  \<open>authMiddleware\<close> attached; reading it from a missing payload throws.
\<close>

definition reqUserId :: "request \<Rightarrow> thrown + json option" where
  "reqUserId req =
     (case user req of
        None \<Rightarrow> Inl TypeError
      | Some JNull \<Rightarrow> Inl TypeError
      | Some u \<Rightarrow> Inr (getProp u ''id''))"

definition createJob :: "schema \<Rightarrow> string \<Rightarrow> db \<Rightarrow> request \<Rightarrow> db \<times> response" where
  "createJob sch newId d req =
     (case andThen (destructure (body req)) (\<lambda>b.
           andThen (reqUserId req) (\<lambda>uid.
             job_create sch newId d (b ''title'') (b ''description'') (b ''company'')
               (b ''status'') uid)) of
        Inl e \<Rightarrow> (d, \<lparr>status_code = 500, json_body = ErrorDetails ''Failed to create job'' e\<rparr>)
      | Inr (d', newJob) \<Rightarrow> (d', \<lparr>status_code = 201, json_body = JobObj newJob\<rparr>))"

definition getJobs :: "schema \<Rightarrow> db \<Rightarrow> request \<Rightarrow> db \<times> response" where
  "getJobs sch d req =
     (case andThen (reqUserId req) (\<lambda>uid. job_findMany sch d uid) of
        Inl e \<Rightarrow> (d, \<lparr>status_code = 500, json_body = ErrorDetails ''Failed to fetch jobs'' e\<rparr>)
      | Inr js \<Rightarrow> (d, \<lparr>status_code = 200, json_body = JobArr js\<rparr>))"

definition notFound :: response where
  "notFound = \<lparr>status_code = 404, json_body = ErrorMsg ''Job not found''\<rparr>"

definition getJobById :: "schema \<Rightarrow> db \<Rightarrow> request \<Rightarrow> db \<times> response" where
  "getJobById sch d req =
     (case andThen (reqUserId req) (\<lambda>uid. job_findFirst sch d (params_id req) uid) of
        Inl e \<Rightarrow> (d, \<lparr>status_code = 500, json_body = ErrorDetails ''Failed to fetch job'' e\<rparr>)
      | Inr None \<Rightarrow> (d, notFound)
      | Inr (Some job) \<Rightarrow> (d, \<lparr>status_code = 200, json_body = JobObj job\<rparr>))"

definition updateJob :: "schema \<Rightarrow> db \<Rightarrow> request \<Rightarrow> db \<times> response" where
  "updateJob sch d req =
     (case andThen (destructure (body req)) (\<lambda>b.
           andThen (reqUserId req) (\<lambda>uid.
           andThen (job_findFirst sch d (params_id req) uid) (\<lambda>job.
             case job of
               None \<Rightarrow> Inr None
             | Some found \<Rightarrow>
                 andThen (job_update d (params_id req) (b ''title'') (b ''description'')
                            (b ''company'') (b ''status''))
                   (\<lambda>r. Inr (Some r))))) of
        Inl e \<Rightarrow> (d, \<lparr>status_code = 500, json_body = ErrorDetails ''Failed to update job'' e\<rparr>)
      | Inr None \<Rightarrow> (d, notFound)
      | Inr (Some (d', updatedJob)) \<Rightarrow> (d', \<lparr>status_code = 200, json_body = JobObj updatedJob\<rparr>))"

definition deleteJob :: "schema \<Rightarrow> db \<Rightarrow> request \<Rightarrow> db \<times> response" where
  "deleteJob sch d req =
     (case andThen (reqUserId req) (\<lambda>uid.
           andThen (job_findFirst sch d (params_id req) uid) (\<lambda>job.
             case job of
               None \<Rightarrow> Inr None
             | Some found \<Rightarrow> andThen (job_delete d (params_id req)) (\<lambda>d'. Inr (Some d')))) of
        Inl e \<Rightarrow> (d, \<lparr>status_code = 500, json_body = ErrorDetails ''Failed to delete job'' e\<rparr>)
      | Inr None \<Rightarrow> (d, notFound)
      | Inr (Some d') \<Rightarrow> (d', \<lparr>status_code = 200, json_body = Message ''Job deleted''\<rparr>))"

text \<open>
  \<open>createUser\<close>; \<open>salt\<close> is the salt \<open>bcrypt.hash\<close> draws and \<open>newId\<close> the id the
  store gives the new row. \<open>bcrypt.hash\<close> throws on a password that is not a string.
\<close>

definition createUser :: "libs \<Rightarrow> string \<Rightarrow> string \<Rightarrow> db \<Rightarrow> request \<Rightarrow> db \<times> response" where
  "createUser lib salt newId d req =
     (case andThen (destructure (body req)) (\<lambda>b.
             if falsy (b ''email'') \<or> falsy (b ''password'') then Inr None
             else andThen (case b ''password'' of
                             Some (JStr p) \<Rightarrow> Inr (bcrypt_hash lib p 10 salt)
                           | _ \<Rightarrow> Inl IllegalArguments) (\<lambda>hashedPassword.
                  andThen (user_create newId d (b ''email'') hashedPassword (b ''name''))
                    (\<lambda>r. Inr (Some r)))) of
        Inl e \<Rightarrow> (d, \<lparr>status_code = 500, json_body = ErrorDetails ''Failed to create user'' e\<rparr>)
      | Inr None \<Rightarrow>
          (d, \<lparr>status_code = 400, json_body = ErrorMsg ''Email and password are required.''\<rparr>)
      | Inr (Some (d', u)) \<Rightarrow> (d', \<lparr>status_code = 201, json_body = UserObj u\<rparr>))"

definition listUsers :: "db \<Rightarrow> request \<Rightarrow> db \<times> response" where
  "listUsers d req = (d, \<lparr>status_code = 200, json_body = UserArr (users d)\<rparr>)"

text \<open>
  The application's last middleware answers an error no handler caught with the error's
  status, or 500.
\<close>

definition errorHandler :: "thrown \<Rightarrow> response" where
  "errorHandler err = \<lparr>status_code = 500, json_body = Uncaught err\<rparr>"

text \<open>\<open>loginUser\<close> reads the body before its \<open>try\<close> block.\<close>

definition loginUser :: "libs \<Rightarrow> db \<Rightarrow> request \<Rightarrow> db \<times> response" where
  "loginUser lib d req =
     (case destructure (body req) of
        Inl e \<Rightarrow> (d, errorHandler e)
      | Inr b \<Rightarrow>
          (case andThen (user_findUnique d (b ''email'')) (\<lambda>found.
                  case found of
                    None \<Rightarrow> Inr None
                  | Some u \<Rightarrow>
                      andThen (case b ''password'' of
                                 Some (JStr p) \<Rightarrow> Inr (bcrypt_compare lib p (password u))
                               | _ \<Rightarrow> Inl IllegalArguments) (\<lambda>isPasswordMatch.
                        if \<not> isPasswordMatch then Inr None
                        else (case jwt_sign lib (JObj [(''userId'', JStr (idUser u))]) of
                                None \<Rightarrow> Inl JwtError
                              | Some token \<Rightarrow> Inr (Some token)))) of
             Inl e \<Rightarrow> (d, \<lparr>status_code = 500, json_body = ErrorDetails ''Failed to login'' e\<rparr>)
           | Inr None \<Rightarrow> (d, \<lparr>status_code = 401, json_body = ErrorMsg ''Invalid credentials''\<rparr>)
           | Inr (Some token) \<Rightarrow> (d, \<lparr>status_code = 200, json_body = TokenObj token\<rparr>)))"


section \<open>Routes\<close>

text \<open>
  The job router runs \<open>authMiddleware\<close> before every route; the user router names it per
  route. \<open>userSchema\<close> is not part of the sources and is a parameter of \<open>POST /users\<close>.
\<close>

definition post_jobs :: "libs \<Rightarrow> schema \<Rightarrow> string \<Rightarrow> db \<Rightarrow> request \<Rightarrow> db \<times> response" where
  "post_jobs lib sch newId = run [authMiddleware lib, validateZod jobSchema] (createJob sch newId)"

definition get_jobs :: "libs \<Rightarrow> schema \<Rightarrow> db \<Rightarrow> request \<Rightarrow> db \<times> response" where
  "get_jobs lib sch = run [authMiddleware lib] (getJobs sch)"

definition get_jobs_id :: "libs \<Rightarrow> schema \<Rightarrow> db \<Rightarrow> request \<Rightarrow> db \<times> response" where
  "get_jobs_id lib sch = run [authMiddleware lib] (getJobById sch)"

definition put_jobs_id :: "libs \<Rightarrow> schema \<Rightarrow> db \<Rightarrow> request \<Rightarrow> db \<times> response" where
  "put_jobs_id lib sch = run [authMiddleware lib, validateZod jobSchema] (updateJob sch)"

definition delete_jobs_id :: "libs \<Rightarrow> schema \<Rightarrow> db \<Rightarrow> request \<Rightarrow> db \<times> response" where
  "delete_jobs_id lib sch = run [authMiddleware lib] (deleteJob sch)"

definition post_users :: "(json \<Rightarrow> issue list + json) \<Rightarrow> libs \<Rightarrow> string \<Rightarrow> string
                            \<Rightarrow> db \<Rightarrow> request \<Rightarrow> db \<times> response" where
  "post_users userSchema lib salt newId = run [validateZod userSchema] (createUser lib salt newId)"

definition get_users :: "libs \<Rightarrow> db \<Rightarrow> request \<Rightarrow> db \<times> response" where
  "get_users lib = run [authMiddleware lib, validateZodQuery userQuerySchema] listUsers"

definition post_login :: "libs \<Rightarrow> db \<Rightarrow> request \<Rightarrow> db \<times> response" where
  "post_login lib = run [] (loginUser lib)"


section \<open>A concrete deployment\<close>

text \<open>
  \<open>decodedLogin u iat\<close> is what \<open>jwt.verify\<close> returns for a token that \<open>loginUser\<close>
  signed for the user \<open>u\<close> at time \<open>iat\<close>: the signed payload \<open>{ userId: u }\<close> with the
  issue time and the expiry one hour later that the library adds.

  \<open>toy_libs\<close> stands in for the two libraries, to run the handlers on concrete
  requests. A token is \<open>jwt.\<close> followed by the \<open>userId\<close> claim it was signed with; a
  hash is the salt and the password behind a marker.
\<close>

definition decodedLogin :: "string \<Rightarrow> int \<Rightarrow> json" where
  "decodedLogin u iat = JObj [(''userId'', JStr u), (''iat'', JNum iat), (''exp'', JNum (iat + 3600))]"

definition toy_libs :: libs where
  "toy_libs =
     \<lparr>jwt_sign = (\<lambda>p. case getProp p ''userId'' of
                          Some (JStr u) \<Rightarrow> Some (''jwt.'' @ u)
                        | _ \<Rightarrow> None),
      jwt_verify = (\<lambda>t. if startsWith t ''jwt.'' \<and> 4 < length t
                          then Some (decodedLogin (drop 4 t) 0)
                          else None),
      bcrypt_hash = (\<lambda>p rounds salt. ''$2a$'' @ salt @ ''$'' @ p),
      bcrypt_compare = (\<lambda>p h. length p < length h \<and> drop (length h - length p) h = p)\<rparr>"

definition alice :: User where
  "alice = \<lparr>idUser = ''A'', email = ''a@x.com'',
             password = ''$2a$salt1$pw123456'', name = None\<rparr>"

definition bob :: User where
  "bob = \<lparr>idUser = ''B'', email = ''b@x.com'',
           password = ''$2a$salt2$hunter22'', name = Some ''Bob''\<rparr>"

definition jobA :: Job where
  "jobA = \<lparr>idJob = ''j1'', title = ''Eng'', company = ''Acme'', status = ''WISHLIST'',
            description = None, notes = Some ''call back'', deadline = None,
            userId = Some ''A''\<rparr>"

definition jobB :: Job where
  "jobB = \<lparr>idJob = ''j2'', title = ''Ops'', company = ''Initech'', status = ''APPLIED'',
            description = None, notes = None, deadline = None, userId = Some ''B''\<rparr>"

definition db0 :: db where
  "db0 = \<lparr>users = [alice, bob], jobs = [jobA, jobB]\<rparr>"

definition request0 :: request where
  "request0 = \<lparr>authorization = None, params_id = [], query = JObj [], body = JObj [],
                user = None\<rparr>"

definition loginAlice :: request where
  "loginAlice = request0\<lparr>body := JObj [(''email'', JStr ''a@x.com''),
                                        (''password'', JStr ''pw123456'')]\<rparr>"

definition loginBob :: request where
  "loginBob = request0\<lparr>body := JObj [(''email'', JStr ''b@x.com''),
                                      (''password'', JStr ''hunter22'')]\<rparr>"

text \<open>Requests that carry the tokens \<open>POST /login\<close> issues to the two users.\<close>

definition asAlice :: request where
  "asAlice = request0\<lparr>authorization := Some ''Bearer jwt.A''\<rparr>"

definition asBob :: request where
  "asBob = request0\<lparr>authorization := Some ''Bearer jwt.B''\<rparr>"

definition engBody :: json where
  "engBody = JObj [(''title'', JStr ''Eng2''), (''company'', JStr ''Acme''),
                   (''status'', JStr ''OFFER''), (''notes'', JStr ''remote''),
                   (''deadline'', JStr ''2026-01-31'')]"

definition jobC :: "string option \<Rightarrow> Job" where
  "jobC owner = \<lparr>idJob = ''j3'', title = ''Eng2'', company = ''Acme'', status = ''OFFER'',
                  description = None, notes = None, deadline = None, userId = owner\<rparr>"

definition signupCarol :: request where
  "signupCarol = request0\<lparr>body := JObj [(''email'', JStr ''c@x.com''),
                                         (''password'', JStr ''s3cret!!'')]\<rparr>"

definition carol :: User where
  "carol = \<lparr>idUser = ''C'', email = ''c@x.com'',
             password = ''$2a$salt3$s3cret!!'', name = None\<rparr>"


section \<open>Unfolding rules\<close>

lemmas js_defs = startsWith_def at_def andThen_def

lemmas zod_defs = z_string_min_def z_enum_def z_string_optional_def z_object_def jobSchema_def
  validateZod_def

lemmas store_defs = create_required_def create_optional_def update_required_def
  update_optional_def where_userId_def job_create_def job_findMany_def job_findFirst_def
  job_update_def job_delete_def user_create_def user_findUnique_def

lemmas handler_defs = reqUserId_def createJob_def getJobs_def getJobById_def updateJob_def
  deleteJob_def createUser_def listUsers_def loginUser_def errorHandler_def notFound_def
  unauthorized_def authMiddleware_def

lemmas route_defs = post_jobs_def get_jobs_def get_jobs_id_def put_jobs_id_def
  delete_jobs_id_def post_users_def get_users_def post_login_def

lemmas toy_defs = decodedLogin_def toy_libs_def alice_def bob_def jobA_def jobB_def db0_def request0_def
  loginAlice_def loginBob_def asAlice_def asBob_def engBody_def jobC_def signupCarol_def
  carol_def

lemmas all_defs = js_defs zod_defs store_defs handler_defs route_defs toy_defs Let_def


section \<open>Auxiliary facts\<close>

lemma split_hd: "\<exists>ws. split c t = takeWhile (\<lambda>x. x \<noteq> c) t # ws"
  by (induction t) (auto split: list.splits)

lemma split_Bearer: "\<exists>ws. split CHR '' '' (''Bearer '' @ t) = ''Bearer'' # takeWhile (\<lambda>x. x \<noteq> CHR '' '') t # ws"
  using split_hd [of "CHR '' ''" t] by auto

lemma bearer_token: "at (split CHR '' '' (''Bearer '' @ t)) 1 = Some (takeWhile (\<lambda>x. x \<noteq> CHR '' '') t)"
  using split_Bearer [of t] by (auto simp: at_def)

lemma auth_disj:
  "authMiddleware lib req = Respond unauthorized
   \<or> (\<exists>decoded. authMiddleware lib req = Next (req\<lparr>user := Some decoded\<rparr>))"
  by (auto simp: authMiddleware_def split: option.splits)

lemma auth_cases:
  obtains "authMiddleware lib req = Respond unauthorized"
  | decoded where "authMiddleware lib req = Next (req\<lparr>user := Some decoded\<rparr>)"
  using auth_disj [of lib req] by blast

lemma validateZod_disj:
  "(\<exists>errs. validateZod s req = Respond \<lparr>status_code = 400, json_body = ValidationErrors errs\<rparr>)
   \<or> (\<exists>data. validateZod s req = Next (req\<lparr>body := data\<rparr>))"
  by (auto simp: validateZod_def split: sum.splits)

lemma validateZodQuery_disj:
  "(\<exists>errs. validateZodQuery s req = Respond \<lparr>status_code = 400, json_body = ValidationErrors errs\<rparr>)
   \<or> (\<exists>data. validateZodQuery s req = Next (req\<lparr>query := data\<rparr>))"
  by (auto simp: validateZodQuery_def split: sum.splits)

lemma z_object_issue:
  assumes "(k, f) \<in> set shape" and "i \<in> set (f [k] (map_of kvs k))"
  shows "\<exists>issues. z_object shape (JObj kvs) = Inl issues \<and> i \<in> set issues"
proof -
  let ?all = "concat (map (\<lambda>(k, f). f [k] (map_of kvs k)) shape)"
  have "i \<in> set ?all" using assms by force
  moreover from this have "?all \<noteq> []" by (cases ?all) simp_all
  ultimately show ?thesis by (simp add: z_object_def Let_def)
qed

lemma z_string_min_missing:
  assumes "v = None \<or> v = Some (JStr [])"
  shows "\<exists>i. i \<in> set (z_string_min 1 msg p v) \<and> path i = p"
  using assms by (auto simp: z_string_min_def)

lemma find_after_delete:
  "find (\<lambda>j. idJob j = i \<and> m (userId j)) (filter (\<lambda>x. idJob x \<noteq> i) js) = None"
  by (simp add: find_None_iff)

lemma deleteJob_200:
  assumes "deleteJob sch d req = (d', r)" and "status_code r = 200"
  shows "d' = d\<lparr>jobs := filter (\<lambda>x. idJob x \<noteq> params_id req) (jobs d)\<rparr>"
  using assms
  by (auto simp: deleteJob_def job_delete_def andThen_def notFound_def
           split: sum.splits option.splits)

lemma deleteJob_repeat:
  assumes "deleteJob sch d req = (d', r)" and "status_code r = 200"
  shows "deleteJob sch d' req = (d', notFound)"
proof -
  have d': "d' = d\<lparr>jobs := filter (\<lambda>x. idJob x \<noteq> params_id req) (jobs d)\<rparr>"
    using assms by (rule deleteJob_200)
  obtain uid m where u: "reqUserId req = Inr uid" "where_userId sch uid = Inr m"
    using assms
    by (auto simp: deleteJob_def job_findFirst_def andThen_def split: sum.splits)
  show ?thesis
    unfolding d' using u
    by (simp add: deleteJob_def job_findFirst_def andThen_def find_after_delete)
qed

lemma job_create_Inr:
  assumes "job_create sch newId d t desc c st uid = Inr (d', j)"
  shows "jobs d' = jobs d @ [j] \<and> notes j = None \<and> deadline j = None \<and> users d' = users d"
  using assms
  by (auto simp: job_create_def andThen_def Let_def split: sum.splits if_splits)

lemma createJob_201:
  assumes "createJob sch newId d req = (d', r)" and "status_code r = 201"
  shows "\<exists>j. json_body r = JobObj j \<and> jobs d' = jobs d @ [j] \<and> notes j = None \<and> deadline j = None"
proof -
  obtain j where j: "job_create sch newId d (getProp (body req) ''title'')
        (getProp (body req) ''description'') (getProp (body req) ''company'')
        (getProp (body req) ''status'') (case reqUserId req of Inr u \<Rightarrow> u) = Inr (d', j)"
     "json_body r = JobObj j"
    using assms
    by (cases "body req") (auto simp: createJob_def andThen_def split: sum.splits)
  from job_create_Inr [OF j(1)] j(2) show ?thesis by blast
qed

lemma job_update_frame:
  assumes "job_update d i t desc c st = Inr (d', j)"
  shows "map (\<lambda>j. (idJob j, notes j, deadline j, userId j)) (jobs d')
           = map (\<lambda>j. (idJob j, notes j, deadline j, userId j)) (jobs d)"
  using assms
  by (auto simp: job_update_def andThen_def Let_def split: sum.splits option.splits)

lemma updateJob_frame:
  assumes "updateJob sch d req = (d', r)"
  shows "map (\<lambda>j. (idJob j, notes j, deadline j, userId j)) (jobs d')
           = map (\<lambda>j. (idJob j, notes j, deadline j, userId j)) (jobs d)"
proof (cases "d' = d")
  case True
  then show ?thesis by simp
next
  case False
  with assms obtain t desc c st j where "job_update d (params_id req) t desc c st = Inr (d', j)"
    by (auto simp: updateJob_def andThen_def split: sum.splits option.splits)
  then show ?thesis by (rule job_update_frame)
qed

lemma user_create_Inr:
  assumes "user_create newId d e hashed n = Inr (d', u)"
  shows "users d' = users d @ [u] \<and> jobs d' = jobs d \<and> password u = hashed \<and> idUser u = newId
         \<and> e = Some (JStr (email u)) \<and> email u \<notin> set (map email (users d))"
  using assms
  by (cases e; cases "the e")
     (auto simp: user_create_def create_required_def andThen_def Let_def
           split: sum.splits if_splits)

lemma createUser_201:
  assumes "createUser lib salt newId d req = (d', r)" and "status_code r = 201"
  shows "\<exists>u p. json_body r = UserObj u \<and> users d' = users d @ [u] \<and> jobs d' = jobs d
               \<and> getProp (body req) ''password'' = Some (JStr p)
               \<and> password u = bcrypt_hash lib p 10 salt
               \<and> idUser u = newId
               \<and> getProp (body req) ''email'' = Some (JStr (email u))
               \<and> email u \<notin> set (map email (users d))"
proof -
  obtain u p where p: "getProp (body req) ''password'' = Some (JStr p)"
    and c: "user_create newId d (getProp (body req) ''email'') (bcrypt_hash lib p 10 salt)
              (getProp (body req) ''name'') = Inr (d', u)"
    and b: "json_body r = UserObj u"
    using assms
    by (cases "body req")
       (auto simp: createUser_def andThen_def split: sum.splits option.splits if_splits json.splits)
  from user_create_Inr [OF c] p b show ?thesis by blast
qed

lemma find_appended:
  assumes "email u \<notin> set (map email us)"
  shows "find (\<lambda>x. email x = email u) (us @ [u]) = Some u"
  using assms by (induction us) auto

text \<open>
  The payload of a login token has the key \<open>userId\<close> and no key \<open>id\<close>, so the handlers
  read \<open>undefined\<close> for the caller's id.
\<close>

lemma reqUserId_login: "reqUserId (req\<lparr>user := Some (decodedLogin u iat)\<rparr>) = Inr None"
  by (simp add: reqUserId_def decodedLogin_def)

lemma createJob_login_token_no_owner:
  assumes "createJob sch newId d (req\<lparr>user := Some (decodedLogin u iat)\<rparr>) = (d', r)"
      and "status_code r = 201"
  shows "\<not> userIdRequired sch \<and> (\<exists>j. json_body r = JobObj j \<and> userId j = None)"
  using assms
  by (cases "body req")
     (auto simp: createJob_def job_create_def create_required_def create_optional_def
                 andThen_def reqUserId_login Let_def
           split: sum.splits if_splits)


section \<open>Job routes called with a login token\<close>

text \<open>
  C1. The claim is that a job created by an authenticated \<open>POST /jobs\<close> has as
  \<open>userId\<close> the id of the user the bearer token was issued to at login. In the source
  \<open>loginUser\<close> signs the payload \<open>{ userId: user.id }\<close> while \<open>createJob\<close> reads
  \<open>req.user.id\<close>, which that payload does not have. Alice logs in and posts a valid job
  with her token: where the owner column is required the store refuses the row and the
  answer is 500, and where it is nullable the answer is 201 with a job whose \<open>userId\<close> is
  unset. In neither case is a job recorded for Alice.
\<close>

theorem createJob_with_login_token:
  "post_login toy_libs db0 loginAlice
     = (db0, \<lparr>status_code = 200, json_body = TokenObj ''jwt.A''\<rparr>)
   \<and> post_jobs toy_libs \<lparr>userIdRequired = True\<rparr> ''j3'' db0 (asAlice\<lparr>body := engBody\<rparr>)
     = (db0, \<lparr>status_code = 500,
              json_body = ErrorDetails ''Failed to create job'' PrismaValidationError\<rparr>)
   \<and> post_jobs toy_libs \<lparr>userIdRequired = False\<rparr> ''j3'' db0 (asAlice\<lparr>body := engBody\<rparr>)
     = (db0\<lparr>jobs := [jobA, jobB, jobC None]\<rparr>,
        \<lparr>status_code = 201, json_body = JobObj (jobC None)\<rparr>)"
  by (simp add: all_defs)


text \<open>
  C2. The claim is that \<open>GET /jobs\<close> returns exactly the jobs owned by the token's user.
  With the token Alice gets at login the handler filters on an undefined owner id, which
  is no filter: the list holds Bob's job as well. The third conjunct says the same of
  every store and every login payload: the answer is the whole table.
\<close>

theorem getJobs_with_login_token:
  "post_login toy_libs db0 loginAlice
     = (db0, \<lparr>status_code = 200, json_body = TokenObj ''jwt.A''\<rparr>)
   \<and> get_jobs toy_libs sch db0 asAlice
     = (db0, \<lparr>status_code = 200, json_body = JobArr [jobA, jobB]\<rparr>)
   \<and> getJobs sch d (req\<lparr>user := Some (decodedLogin u iat)\<rparr>)
     = (d, \<lparr>status_code = 200, json_body = JobArr (jobs d)\<rparr>)"
  by (simp add: all_defs)


text \<open>
  C3. The claim is that \<open>GET\<close>, \<open>PUT\<close> and \<open>DELETE /jobs/:id\<close> by a user other than
  the owner answer 404, as for an id no job has. With the token Bob gets at login, each
  of the three on Alice's job \<open>j1\<close> answers 200: the job is returned, rewritten and
  removed. The 404 is what the same requests get for the unused id \<open>j9\<close>. The last
  conjunct says of every store and every login payload that the lookup goes by the id
  alone, whoever owns the job.
\<close>

theorem job_by_id_with_other_users_token:
  "post_login toy_libs db0 loginBob
     = (db0, \<lparr>status_code = 200, json_body = TokenObj ''jwt.B''\<rparr>)
   \<and> get_jobs_id toy_libs sch db0 (asBob\<lparr>params_id := ''j1''\<rparr>)
     = (db0, \<lparr>status_code = 200, json_body = JobObj jobA\<rparr>)
   \<and> put_jobs_id toy_libs sch db0 (asBob\<lparr>params_id := ''j1'', body := engBody\<rparr>)
     = (db0\<lparr>jobs := [jobA\<lparr>title := ''Eng2'', status := ''OFFER''\<rparr>, jobB]\<rparr>,
        \<lparr>status_code = 200, json_body = JobObj (jobA\<lparr>title := ''Eng2'', status := ''OFFER''\<rparr>)\<rparr>)
   \<and> delete_jobs_id toy_libs sch db0 (asBob\<lparr>params_id := ''j1''\<rparr>)
     = (db0\<lparr>jobs := [jobB]\<rparr>, \<lparr>status_code = 200, json_body = Message ''Job deleted''\<rparr>)
   \<and> get_jobs_id toy_libs sch db0 (asBob\<lparr>params_id := ''j9''\<rparr>)
     = (db0, \<lparr>status_code = 404, json_body = ErrorMsg ''Job not found''\<rparr>)
   \<and> put_jobs_id toy_libs sch db0 (asBob\<lparr>params_id := ''j9'', body := engBody\<rparr>)
     = (db0, \<lparr>status_code = 404, json_body = ErrorMsg ''Job not found''\<rparr>)
   \<and> delete_jobs_id toy_libs sch db0 (asBob\<lparr>params_id := ''j9''\<rparr>)
     = (db0, \<lparr>status_code = 404, json_body = ErrorMsg ''Job not found''\<rparr>)
   \<and> getJobById sch d (req\<lparr>user := Some (decodedLogin u iat)\<rparr>)
     = (d, case find (\<lambda>j. idJob j = params_id req) (jobs d) of
             None \<Rightarrow> \<lparr>status_code = 404, json_body = ErrorMsg ''Job not found''\<rparr>
           | Some job \<Rightarrow> \<lparr>status_code = 200, json_body = JobObj job\<rparr>)"
  by (simp add: all_defs split: option.splits)


section \<open>The status enumeration of the job schema\<close>

text \<open>
  C4. The claim is that the job-body validator accepts the status \<open>REJECTED\<close> and rejects
  every status outside WISHLIST, APPLIED, INTERVIEW, OFFER, REJECTED. The schema in the
  source lists \<open>REJECTEDz\<close> as its fifth value, so the validator does the opposite on
  both spellings: a body with status \<open>REJECTED\<close> is answered 400 with one error entry at
  path \<open>status\<close> and no handler runs, while a body with status \<open>REJECTEDz\<close>, which is
  outside the claimed set, passes validation.
\<close>

theorem jobSchema_status_REJECTED_refused:
  "run [validateZod jobSchema] h d
      (request0\<lparr>body := JObj [(''title'', JStr ''Eng''), (''company'', JStr ''Acme''),
                              (''status'', JStr ''REJECTED'')]\<rparr>)
     = (d, \<lparr>status_code = 400,
            json_body = ValidationErrors
              [\<lparr>entry_path = ''status'', entry_message = LibraryDefault\<rparr>]\<rparr>)
   \<and> jobSchema (JObj [(''title'', JStr ''Eng''), (''company'', JStr ''Acme''),
                      (''status'', JStr ''REJECTEDz'')])
     = Inr (JObj [(''title'', JStr ''Eng''), (''company'', JStr ''Acme''),
                  (''status'', JStr ''REJECTEDz'')])"
  by (simp add: zod_defs toy_defs)


section \<open>Bodies without a title or a company\<close>

text \<open>
  C5. For every job request body (a JSON object) in which the field \<open>title\<close> or the field
  \<open>company\<close> is missing or the empty string, the validation middleware of the job schema
  responds 400, the returned error list has an entry whose path is the name of that
  field, and neither a later middleware nor the endpoint handler runs: the result is the
  same for every \<open>ms\<close> and \<open>h\<close>, and the store is untouched.
\<close>

theorem validateZod_missing_title_or_company:
  assumes "k = ''title'' \<or> k = ''company''"
      and "map_of kvs k = None \<or> map_of kvs k = Some (JStr [])"
      and "body req = JObj kvs"
  shows "\<exists>errs. run (validateZod jobSchema # ms) h d req
                  = (d, \<lparr>status_code = 400, json_body = ValidationErrors errs\<rparr>)
               \<and> (\<exists>e \<in> set errs. entry_path e = k)"
proof -
  obtain msg where shape: "(k, z_string_min 1 msg) \<in> set
     [(''title'', z_string_min 1 ''Title is required''),
      (''company'', z_string_min 1 ''Company is required''),
      (''status'', z_enum [''WISHLIST'', ''APPLIED'', ''INTERVIEW'', ''OFFER'', ''REJECTEDz'']),
      (''description'', z_string_optional),
      (''notes'', z_string_optional),
      (''deadline'', z_string_optional)]"
    using assms(1) by auto
  obtain i where i: "i \<in> set (z_string_min 1 msg [k] (map_of kvs k))" "path i = [k]"
    using z_string_min_missing [OF assms(2)] by blast
  obtain issues where p: "jobSchema (JObj kvs) = Inl issues" "i \<in> set issues"
    unfolding jobSchema_def using z_object_issue [OF shape i(1)] by blast
  let ?errs = "map (\<lambda>i. \<lparr>entry_path = join ''.'' (path i), entry_message = message i\<rparr>) issues"
  have "run (validateZod jobSchema # ms) h d req
          = (d, \<lparr>status_code = 400, json_body = ValidationErrors ?errs\<rparr>)"
    using p(1) assms(3) by (simp add: validateZod_def)
  moreover have "\<lparr>entry_path = k, entry_message = message i\<rparr> \<in> set ?errs"
    using p(2) i(2) by force
  ultimately show ?thesis by force
qed

theorem validateZod_missing_title_or_company_witness:
  "(\<exists>errs. run [validateZod jobSchema] (createJob \<lparr>userIdRequired = True\<rparr> ''j3'') db0
        (request0\<lparr>body := JObj [(''company'', JStr ''Acme''), (''status'', JStr ''WISHLIST'')]\<rparr>)
       = (db0, \<lparr>status_code = 400, json_body = ValidationErrors errs\<rparr>)
     \<and> (\<exists>e \<in> set errs. entry_path e = ''title''))
   \<and> (\<exists>errs. run [validateZod jobSchema] (createJob \<lparr>userIdRequired = True\<rparr> ''j3'') db0
        (request0\<lparr>body := JObj [(''title'', JStr ''Eng''), (''company'', JStr ''''),
                                (''status'', JStr ''WISHLIST'')]\<rparr>)
       = (db0, \<lparr>status_code = 400, json_body = ValidationErrors errs\<rparr>)
     \<and> (\<exists>e \<in> set errs. entry_path e = ''company''))"
proof -
  let ?b1 = "[(''company'', JStr ''Acme''), (''status'', JStr ''WISHLIST'')]"
  let ?b2 = "[(''title'', JStr ''Eng''), (''company'', JStr ''''), (''status'', JStr ''WISHLIST'')]"
  have k1: "''title'' = ''title'' \<or> ''title'' = ''company''" by simp
  have m1: "map_of ?b1 ''title'' = None \<or> map_of ?b1 ''title'' = Some (JStr [])" by simp
  have b1: "body (request0\<lparr>body := JObj ?b1\<rparr>) = JObj ?b1" by simp
  have k2: "''company'' = ''title'' \<or> ''company'' = ''company''" by simp
  have m2: "map_of ?b2 ''company'' = None \<or> map_of ?b2 ''company'' = Some (JStr [])" by simp
  have b2: "body (request0\<lparr>body := JObj ?b2\<rparr>) = JObj ?b2" by simp
  show ?thesis
    using validateZod_missing_title_or_company [OF k1 m1 b1, of "[]" "createJob \<lparr>userIdRequired = True\<rparr> ''j3''" db0]
          validateZod_missing_title_or_company [OF k2 m2 b2, of "[]" "createJob \<lparr>userIdRequired = True\<rparr> ''j3''" db0]
    by blast
qed


section \<open>Requests without a valid bearer token\<close>

text \<open>
  C6. On every route that starts with \<open>authMiddleware\<close>: if the Authorization header is
  missing, or does not start with \<open>Bearer \<close>, or starts with it and the token the
  middleware reads from it (the text after the prefix up to the next space) fails
  verification, the response is 401 with the body \<open>{error: "Unauthorized"}\<close>, the same
  for the three causes, and nothing downstream runs: the result does not depend on the
  later middlewares \<open>ms\<close> or the handler \<open>h\<close>, and the store is untouched.
\<close>

theorem authMiddleware_unauthorized:
  assumes "authorization req = None
           \<or> (\<exists>a. authorization req = Some a \<and> \<not> startsWith a ''Bearer '')
           \<or> (\<exists>t. authorization req = Some (''Bearer '' @ t)
                    \<and> jwt_verify lib (takeWhile (\<lambda>x. x \<noteq> CHR '' '') t) = None)"
  shows "run (authMiddleware lib # ms) h d req
           = (d, \<lparr>status_code = 401, json_body = ErrorMsg ''Unauthorized''\<rparr>)"
proof -
  have "authMiddleware lib req = Respond unauthorized"
    using assms
  proof (elim disjE exE conjE)
    assume "authorization req = None"
    then show ?thesis by (simp add: authMiddleware_def)
  next
    fix a assume "authorization req = Some a" "\<not> startsWith a ''Bearer ''"
    then show ?thesis by (simp add: authMiddleware_def)
  next
    fix t assume h: "authorization req = Some (''Bearer '' @ t)"
      and v: "jwt_verify lib (takeWhile (\<lambda>x. x \<noteq> CHR '' '') t) = None"
    have "at (split CHR '' '' (''Bearer '' @ t)) 1 = Some (takeWhile (\<lambda>x. x \<noteq> CHR '' '') t)"
      by (rule bearer_token)
    with h v show ?thesis by (simp add: authMiddleware_def)
  qed
  then show ?thesis by (simp add: unauthorized_def)
qed

theorem authMiddleware_unauthorized_witness:
  "run [authMiddleware toy_libs] (getJobs \<lparr>userIdRequired = True\<rparr>) db0 request0
     = (db0, \<lparr>status_code = 401, json_body = ErrorMsg ''Unauthorized''\<rparr>)
   \<and> run [authMiddleware toy_libs] (getJobs \<lparr>userIdRequired = True\<rparr>) db0
         (request0\<lparr>authorization := Some ''Basic abc''\<rparr>)
     = (db0, \<lparr>status_code = 401, json_body = ErrorMsg ''Unauthorized''\<rparr>)
   \<and> run [authMiddleware toy_libs] (getJobs \<lparr>userIdRequired = True\<rparr>) db0
         (request0\<lparr>authorization := Some (''Bearer '' @ ''forged'')\<rparr>)
     = (db0, \<lparr>status_code = 401, json_body = ErrorMsg ''Unauthorized''\<rparr>)"
proof -
  have h1: "authorization request0 = None
     \<or> (\<exists>a. authorization request0 = Some a \<and> \<not> startsWith a ''Bearer '')
     \<or> (\<exists>t. authorization request0 = Some (''Bearer '' @ t)
              \<and> jwt_verify toy_libs (takeWhile (\<lambda>x. x \<noteq> CHR '' '') t) = None)"
    by (simp add: request0_def)
  let ?r2 = "request0\<lparr>authorization := Some ''Basic abc''\<rparr>"
  have "authorization ?r2 = Some ''Basic abc'' \<and> \<not> startsWith ''Basic abc'' ''Bearer ''"
    by (simp add: startsWith_def)
  then have h2: "authorization ?r2 = None
     \<or> (\<exists>a. authorization ?r2 = Some a \<and> \<not> startsWith a ''Bearer '')
     \<or> (\<exists>t. authorization ?r2 = Some (''Bearer '' @ t)
              \<and> jwt_verify toy_libs (takeWhile (\<lambda>x. x \<noteq> CHR '' '') t) = None)"
    by blast
  let ?r3 = "request0\<lparr>authorization := Some (''Bearer '' @ ''forged'')\<rparr>"
  have "authorization ?r3 = Some (''Bearer '' @ ''forged'')
        \<and> jwt_verify toy_libs (takeWhile (\<lambda>x. x \<noteq> CHR '' '') ''forged'') = None"
    by (simp add: toy_libs_def startsWith_def)
  then have h3: "authorization ?r3 = None
     \<or> (\<exists>a. authorization ?r3 = Some a \<and> \<not> startsWith a ''Bearer '')
     \<or> (\<exists>t. authorization ?r3 = Some (''Bearer '' @ t)
              \<and> jwt_verify toy_libs (takeWhile (\<lambda>x. x \<noteq> CHR '' '') t) = None)"
    by blast
  show ?thesis
    using authMiddleware_unauthorized [OF h1, of "[]" "getJobs \<lparr>userIdRequired = True\<rparr>" db0]
          authMiddleware_unauthorized [OF h2, of "[]" "getJobs \<lparr>userIdRequired = True\<rparr>" db0]
          authMiddleware_unauthorized [OF h3, of "[]" "getJobs \<lparr>userIdRequired = True\<rparr>" db0]
    by blast
qed


section \<open>Deleting a job twice\<close>

text \<open>
  C7. For every job id: if \<open>DELETE /jobs/:id\<close> answers 200 and the same request is
  repeated on the resulting store, with nothing created in between, the second call
  answers 404 \<open>{error: "Job not found"}\<close> and leaves the store as it is.
\<close>

theorem deleteJob_twice_not_found:
  assumes "delete_jobs_id lib sch d req = (d', r)" and "status_code r = 200"
  shows "delete_jobs_id lib sch d' req
           = (d', \<lparr>status_code = 404, json_body = ErrorMsg ''Job not found''\<rparr>)"
proof (cases rule: auth_cases [of lib req])
  case 1
  with assms show ?thesis by (auto simp: delete_jobs_id_def unauthorized_def)
next
  case (2 decoded)
  with assms have "deleteJob sch d (req\<lparr>user := Some decoded\<rparr>) = (d', r)"
    by (simp add: delete_jobs_id_def)
  from deleteJob_repeat [OF this assms(2)] 2 show ?thesis
    by (simp add: delete_jobs_id_def notFound_def)
qed

theorem deleteJob_twice_not_found_witness:
  "delete_jobs_id toy_libs \<lparr>userIdRequired = True\<rparr> db0 (asAlice\<lparr>params_id := ''j1''\<rparr>)
     = (db0\<lparr>jobs := [jobB]\<rparr>, \<lparr>status_code = 200, json_body = Message ''Job deleted''\<rparr>)
   \<and> delete_jobs_id toy_libs \<lparr>userIdRequired = True\<rparr> (db0\<lparr>jobs := [jobB]\<rparr>)
        (asAlice\<lparr>params_id := ''j1''\<rparr>)
     = (db0\<lparr>jobs := [jobB]\<rparr>, \<lparr>status_code = 404, json_body = ErrorMsg ''Job not found''\<rparr>)"
proof -
  have h: "delete_jobs_id toy_libs \<lparr>userIdRequired = True\<rparr> db0 (asAlice\<lparr>params_id := ''j1''\<rparr>)
     = (db0\<lparr>jobs := [jobB]\<rparr>, \<lparr>status_code = 200, json_body = Message ''Job deleted''\<rparr>)"
    by (simp add: all_defs)
  have s: "status_code \<lparr>status_code = 200, json_body = Message ''Job deleted''\<rparr> = 200" by simp
  from deleteJob_twice_not_found [OF h s] h show ?thesis by blast
qed


section \<open>Stored passwords\<close>

text \<open>
  C8. For every signup that creates a user (201) from a body whose password is the string
  \<open>pw\<close>: the stored password is the hash \<open>bcrypt.hash(pw, 10)\<close>, not the plaintext, and
  \<open>compare(pw, stored)\<close> as \<open>loginUser\<close> calls it succeeds, so that logging in with the
  same body on the resulting store gets past the credential check and signs a token for
  the new user. The hashing library is a parameter; what is assumed of it is that a hash
  differs from its plaintext and that \<open>compare\<close> accepts a plaintext against its own hash.
\<close>

theorem createUser_stores_hash:
  assumes "createUser lib salt newId d req = (d', r)" and "status_code r = 201"
      and "getProp (body req) ''password'' = Some (JStr pw)"
      and "bcrypt_hash lib pw 10 salt \<noteq> pw"
      and "bcrypt_compare lib pw (bcrypt_hash lib pw 10 salt)"
  shows "\<exists>u. json_body r = UserObj u \<and> users d' = users d @ [u]
            \<and> password u = bcrypt_hash lib pw 10 salt
            \<and> password u \<noteq> pw
            \<and> bcrypt_compare lib pw (password u)
            \<and> loginUser lib d' req
                = (d', case jwt_sign lib (JObj [(''userId'', JStr (idUser u))]) of
                         None \<Rightarrow> \<lparr>status_code = 500,
                                   json_body = ErrorDetails ''Failed to login'' JwtError\<rparr>
                       | Some token \<Rightarrow> \<lparr>status_code = 200, json_body = TokenObj token\<rparr>)"
proof -
  from createUser_201 [OF assms(1,2)] assms(3) obtain u where
    u: "json_body r = UserObj u" "users d' = users d @ [u]"
       "password u = bcrypt_hash lib pw 10 salt"
       "getProp (body req) ''email'' = Some (JStr (email u))"
       "email u \<notin> set (map email (users d))"
    by auto
  have f: "find (\<lambda>x. email x = email u) (users d') = Some u"
    unfolding u(2) using u(5) by (rule find_appended)
  have nn: "body req \<noteq> JNull" using assms(3) by auto
  have "loginUser lib d' req
          = (d', case jwt_sign lib (JObj [(''userId'', JStr (idUser u))]) of
                   None \<Rightarrow> \<lparr>status_code = 500,
                             json_body = ErrorDetails ''Failed to login'' JwtError\<rparr>
                 | Some token \<Rightarrow> \<lparr>status_code = 200, json_body = TokenObj token\<rparr>)"
    using nn f u(3,4) assms(3,5)
    by (cases "body req")
       (simp_all add: loginUser_def user_findUnique_def andThen_def split: option.splits)
  with u assms(4,5) show ?thesis by auto
qed

theorem createUser_stores_hash_witness:
  "createUser toy_libs ''salt3'' ''C'' db0 signupCarol
     = (db0\<lparr>users := [alice, bob, carol]\<rparr>, \<lparr>status_code = 201, json_body = UserObj carol\<rparr>)
   \<and> password carol \<noteq> ''s3cret!!''
   \<and> bcrypt_compare toy_libs ''s3cret!!'' (password carol)
   \<and> loginUser toy_libs (db0\<lparr>users := [alice, bob, carol]\<rparr>) signupCarol
     = (db0\<lparr>users := [alice, bob, carol]\<rparr>, \<lparr>status_code = 200, json_body = TokenObj ''jwt.C''\<rparr>)"
proof -
  have h1: "createUser toy_libs ''salt3'' ''C'' db0 signupCarol
     = (db0\<lparr>users := [alice, bob, carol]\<rparr>, \<lparr>status_code = 201, json_body = UserObj carol\<rparr>)"
    by (simp add: all_defs)
  have h2: "status_code \<lparr>status_code = 201, json_body = UserObj carol\<rparr> = 201" by simp
  have h3: "getProp (body signupCarol) ''password'' = Some (JStr ''s3cret!!'')"
    by (simp add: signupCarol_def request0_def)
  have h4: "bcrypt_hash toy_libs ''s3cret!!'' 10 ''salt3'' \<noteq> ''s3cret!!''"
    by (simp add: toy_libs_def)
  have h5: "bcrypt_compare toy_libs ''s3cret!!'' (bcrypt_hash toy_libs ''s3cret!!'' 10 ''salt3'')"
    by (simp add: toy_libs_def)
  have s: "jwt_sign toy_libs (JObj [(''userId'', JStr (idUser carol))]) = Some ''jwt.C''"
    by (simp add: toy_libs_def carol_def)
  from createUser_stores_hash [OF h1 h2 h3 h4 h5] h1 s show ?thesis by auto
qed


section \<open>The fields notes and deadline\<close>

text \<open>
  C9. \<open>POST /jobs\<close> and \<open>PUT /jobs/:id\<close> discard the fields \<open>notes\<close> and \<open>deadline\<close>
  of the body, whatever they hold: a job created with 201 is stored with both columns
  unset and the jobs stored before are as they were, and after an update every stored job
  has the notes and the deadline it had.
\<close>

theorem notes_deadline_discarded:
  "(post_jobs lib sch newId d req = (d', r) \<and> status_code r = 201 \<longrightarrow>
      (\<exists>j. json_body r = JobObj j \<and> jobs d' = jobs d @ [j]
           \<and> notes j = None \<and> deadline j = None))
   \<and> (put_jobs_id lib sch d req = (d'', r') \<longrightarrow>
        map (\<lambda>j. (idJob j, notes j, deadline j)) (jobs d'')
          = map (\<lambda>j. (idJob j, notes j, deadline j)) (jobs d))"
proof (intro conjI impI)
  assume a: "post_jobs lib sch newId d req = (d', r) \<and> status_code r = 201"
  from auth_disj [of lib req] show "\<exists>j. json_body r = JobObj j \<and> jobs d' = jobs d @ [j]
           \<and> notes j = None \<and> deadline j = None"
  proof (elim disjE exE)
    assume "authMiddleware lib req = Respond unauthorized"
    with a show ?thesis by (auto simp: post_jobs_def unauthorized_def)
  next
    fix decoded assume n: "authMiddleware lib req = Next (req\<lparr>user := Some decoded\<rparr>)"
    from validateZod_disj [of jobSchema "req\<lparr>user := Some decoded\<rparr>"] show ?thesis
    proof (elim disjE exE)
      fix errs assume "validateZod jobSchema (req\<lparr>user := Some decoded\<rparr>)
         = Respond \<lparr>status_code = 400, json_body = ValidationErrors errs\<rparr>"
      with a n show ?thesis by (auto simp: post_jobs_def)
    next
      fix data assume "validateZod jobSchema (req\<lparr>user := Some decoded\<rparr>)
         = Next (req\<lparr>user := Some decoded, body := data\<rparr>)"
      with a n have "createJob sch newId d (req\<lparr>user := Some decoded, body := data\<rparr>) = (d', r)"
        by (simp add: post_jobs_def)
      from createJob_201 [OF this] a show ?thesis by blast
    qed
  qed
next
  assume a: "put_jobs_id lib sch d req = (d'', r')"
  have "map (\<lambda>j. (idJob j, notes j, deadline j, userId j)) (jobs d'')
           = map (\<lambda>j. (idJob j, notes j, deadline j, userId j)) (jobs d)"
    using auth_disj [of lib req]
  proof (elim disjE exE)
    assume "authMiddleware lib req = Respond unauthorized"
    with a show ?thesis by (auto simp: put_jobs_id_def)
  next
    fix decoded assume n: "authMiddleware lib req = Next (req\<lparr>user := Some decoded\<rparr>)"
    from validateZod_disj [of jobSchema "req\<lparr>user := Some decoded\<rparr>"] show ?thesis
    proof (elim disjE exE)
      fix errs assume "validateZod jobSchema (req\<lparr>user := Some decoded\<rparr>)
         = Respond \<lparr>status_code = 400, json_body = ValidationErrors errs\<rparr>"
      with a n show ?thesis by (auto simp: put_jobs_id_def)
    next
      fix data assume "validateZod jobSchema (req\<lparr>user := Some decoded\<rparr>)
         = Next (req\<lparr>user := Some decoded, body := data\<rparr>)"
      with a n have "updateJob sch d (req\<lparr>user := Some decoded, body := data\<rparr>) = (d'', r')"
        by (simp add: put_jobs_id_def)
      then show ?thesis by (rule updateJob_frame)
    qed
  qed
  then have "map (\<lambda>(i, n, dl, u). (i, n, dl)) (map (\<lambda>j. (idJob j, notes j, deadline j, userId j)) (jobs d''))
     = map (\<lambda>(i, n, dl, u). (i, n, dl)) (map (\<lambda>j. (idJob j, notes j, deadline j, userId j)) (jobs d))"
    by simp
  then show "map (\<lambda>j. (idJob j, notes j, deadline j)) (jobs d'')
          = map (\<lambda>j. (idJob j, notes j, deadline j)) (jobs d)"
    by (simp add: comp_def)
qed

theorem notes_deadline_discarded_witness:
  "post_jobs toy_libs \<lparr>userIdRequired = False\<rparr> ''j3'' db0 (asAlice\<lparr>body := engBody\<rparr>)
     = (db0\<lparr>jobs := [jobA, jobB, jobC None]\<rparr>,
        \<lparr>status_code = 201, json_body = JobObj (jobC None)\<rparr>)
   \<and> getProp engBody ''notes'' = Some (JStr ''remote'')
   \<and> getProp engBody ''deadline'' = Some (JStr ''2026-01-31'')
   \<and> notes (jobC None) = None \<and> deadline (jobC None) = None
   \<and> put_jobs_id toy_libs \<lparr>userIdRequired = False\<rparr> db0 (asAlice\<lparr>params_id := ''j1'', body := engBody\<rparr>)
     = (db0\<lparr>jobs := [jobA\<lparr>title := ''Eng2'', status := ''OFFER''\<rparr>, jobB]\<rparr>,
        \<lparr>status_code = 200, json_body = JobObj (jobA\<lparr>title := ''Eng2'', status := ''OFFER''\<rparr>)\<rparr>)
   \<and> map (\<lambda>j. (idJob j, notes j, deadline j)) [jobA\<lparr>title := ''Eng2'', status := ''OFFER''\<rparr>, jobB]
     = map (\<lambda>j. (idJob j, notes j, deadline j)) (jobs db0)"
proof -
  let ?d1 = "db0\<lparr>jobs := [jobA, jobB, jobC None]\<rparr>"
  let ?r1 = "\<lparr>status_code = 201, json_body = JobObj (jobC None)\<rparr>"
  let ?d2 = "db0\<lparr>jobs := [jobA\<lparr>title := ''Eng2'', status := ''OFFER''\<rparr>, jobB]\<rparr>"
  let ?r2 = "\<lparr>status_code = 200, json_body = JobObj (jobA\<lparr>title := ''Eng2'', status := ''OFFER''\<rparr>)\<rparr>"
  have h1: "post_jobs toy_libs \<lparr>userIdRequired = False\<rparr> ''j3'' db0 (asAlice\<lparr>body := engBody\<rparr>)
     = (?d1, ?r1)"
    by (simp add: all_defs)
  have h2: "put_jobs_id toy_libs \<lparr>userIdRequired = False\<rparr> db0 (asAlice\<lparr>params_id := ''j1'', body := engBody\<rparr>)
     = (?d2, ?r2)"
    by (simp add: all_defs)
  have e: "getProp engBody ''notes'' = Some (JStr ''remote'')"
          "getProp engBody ''deadline'' = Some (JStr ''2026-01-31'')"
    by (simp_all add: engBody_def)
  from notes_deadline_discarded [where lib = toy_libs and sch = "\<lparr>userIdRequired = False\<rparr>"
         and newId = "''j3''" and d = db0 and req = "asAlice\<lparr>body := engBody\<rparr>"
         and d' = ?d1 and r = ?r1]
       notes_deadline_discarded [where lib = toy_libs and sch = "\<lparr>userIdRequired = False\<rparr>"
         and d = db0 and req = "asAlice\<lparr>params_id := ''j1'', body := engBody\<rparr>"
         and d'' = ?d2 and r' = ?r2]
       h1 h2 e
  show ?thesis by simp
qed


section \<open>User records in responses\<close>

text \<open>
  C10. The 201 response of \<open>POST /users\<close> carries the whole record that was stored for
  the new user, whose password field is the hash; the 200 response of \<open>GET /users\<close>
  carries every stored user record in full. No field is withheld: the body is the record,
  and the list is the table.
\<close>

theorem user_responses_carry_password:
  "(post_users userSchema lib salt newId d req = (d', r) \<and> status_code r = 201 \<longrightarrow>
      (\<exists>u. json_body r = UserObj u \<and> users d' = users d @ [u]
           \<and> (\<exists>p. password u = bcrypt_hash lib p 10 salt)))
   \<and> (get_users lib d req = (d'', r') \<and> status_code r' = 200 \<longrightarrow>
        d'' = d \<and> json_body r' = UserArr (users d))"
proof (intro conjI impI)
  assume a: "post_users userSchema lib salt newId d req = (d', r) \<and> status_code r = 201"
  from validateZod_disj [of userSchema req]
  show "\<exists>u. json_body r = UserObj u \<and> users d' = users d @ [u]
           \<and> (\<exists>p. password u = bcrypt_hash lib p 10 salt)"
  proof (elim disjE exE)
    fix errs assume "validateZod userSchema req
         = Respond \<lparr>status_code = 400, json_body = ValidationErrors errs\<rparr>"
    with a show ?thesis by (auto simp: post_users_def)
  next
    fix data assume "validateZod userSchema req = Next (req\<lparr>body := data\<rparr>)"
    with a have "createUser lib salt newId d (req\<lparr>body := data\<rparr>) = (d', r)"
      by (simp add: post_users_def)
    from createUser_201 [OF this] a show ?thesis by blast
  qed
next
  assume a: "get_users lib d req = (d'', r') \<and> status_code r' = 200"
  from auth_disj [of lib req] have "d'' = d \<and> json_body r' = UserArr (users d)"
  proof (elim disjE exE)
    assume "authMiddleware lib req = Respond unauthorized"
    with a show ?thesis by (auto simp: get_users_def unauthorized_def)
  next
    fix decoded assume n: "authMiddleware lib req = Next (req\<lparr>user := Some decoded\<rparr>)"
    from validateZodQuery_disj [of userQuerySchema "req\<lparr>user := Some decoded\<rparr>"] show ?thesis
    proof (elim disjE exE)
      fix errs assume "validateZodQuery userQuerySchema (req\<lparr>user := Some decoded\<rparr>)
         = Respond \<lparr>status_code = 400, json_body = ValidationErrors errs\<rparr>"
      with a n show ?thesis by (auto simp: get_users_def)
    next
      fix data assume "validateZodQuery userQuerySchema (req\<lparr>user := Some decoded\<rparr>)
         = Next (req\<lparr>user := Some decoded, query := data\<rparr>)"
      with a n show ?thesis by (auto simp: get_users_def listUsers_def)
    qed
  qed
  then show "d'' = d" and "json_body r' = UserArr (users d)" by simp_all
qed

theorem user_responses_carry_password_witness:
  "post_users Inr toy_libs ''salt3'' ''C'' db0 signupCarol
     = (db0\<lparr>users := [alice, bob, carol]\<rparr>, \<lparr>status_code = 201, json_body = UserObj carol\<rparr>)
   \<and> password carol = bcrypt_hash toy_libs ''s3cret!!'' 10 ''salt3''
   \<and> get_users toy_libs db0 asAlice = (db0, \<lparr>status_code = 200, json_body = UserArr [alice, bob]\<rparr>)
   \<and> map password [alice, bob] = [''$2a$salt1$pw123456'', ''$2a$salt2$hunter22'']"
proof -
  let ?d1 = "db0\<lparr>users := [alice, bob, carol]\<rparr>"
  let ?r1 = "\<lparr>status_code = 201, json_body = UserObj carol\<rparr>"
  let ?r2 = "\<lparr>status_code = 200, json_body = UserArr [alice, bob]\<rparr>"
  have h1: "post_users Inr toy_libs ''salt3'' ''C'' db0 signupCarol = (?d1, ?r1)"
    by (simp add: all_defs)
  have h2: "get_users toy_libs db0 asAlice = (db0, ?r2)"
    by (simp add: all_defs validateZodQuery_def userQuerySchema_def)
  have p: "password carol = bcrypt_hash toy_libs ''s3cret!!'' 10 ''salt3''"
          "map password [alice, bob] = [''$2a$salt1$pw123456'', ''$2a$salt2$hunter22'']"
    by (simp_all add: toy_defs)
  from user_responses_carry_password [where userSchema = Inr and lib = toy_libs
         and salt = "''salt3''" and newId = "''C''" and d = db0 and req = signupCarol
         and d' = ?d1 and r = ?r1]
       user_responses_carry_password [where lib = toy_libs and d = db0 and req = asAlice
         and d'' = db0 and r' = ?r2]
       h1 h2 p
  show ?thesis by simp
qed


end
